theory Spec2Isabelle
  imports Main
begin

section \<open>The Falcon application logger (\<^verbatim>\<open>falcon/logger.h\<close>)\<close>

text \<open>
  The embedding follows one thread. \<^verbatim>\<open>Logger\<close> keeps its composition state in
  \<^verbatim>\<open>static thread_local\<close> members, so the state of one thread is a record that every
  operation takes and returns. Log levels are the integer values of the enumeration
  \<^verbatim>\<open>LogSystem::LEVEL\<close> (\<^verbatim>\<open>LLDISABLE\<close> is the plain integer \<open>-1\<close>), and the code only ever
  compares them with \<^verbatim>\<open>>=\<close>. The macro \<^verbatim>\<open>FALCON_MIN_LOG_LEVEL\<close> is a build-time constant;
  every definition that expands it takes it as the parameter \<open>buildMin\<close>. A value streamed
  into the logger is represented by the text that \<^verbatim>\<open>std::ostream\<close> renders for it.
\<close>

subsection \<open>Data\<close>

type_synonym LOGLEVEL = int

text \<open>
  Modelled from the spec: the message that \<^verbatim>\<open>LogSystem::log\<close> (declared in
  \<^verbatim>\<open>falcon/logsystem.h\<close>) builds from the five arguments that
  \<^verbatim>\<open>Logger::commit\<close> hands over. The fields the log system adds by itself (thread identity,
  timestamp) are left out.
\<close>

record Message =
  msg_file :: string
  msg_line :: int
  msg_level :: LOGLEVEL
  msg_category :: string
  msg_text :: string

text \<open>
  Modelled from the spec: the part of the base class \<^verbatim>\<open>LogSystem\<close> (declared in
  \<^verbatim>\<open>falcon/logsystem.h\<close>) that the logger uses: the run-time threshold that \<^verbatim>\<open>level()\<close>
  reads, and the messages handed to \<^verbatim>\<open>log\<close> so far, oldest first.
\<close>

record LogSystem =
  level :: LOGLEVEL
  messages :: "Message list"

text \<open>
  \<^verbatim>\<open>class Logger: public LogSystem\<close>, as one thread sees it: the fields added are the
  \<^verbatim>\<open>static thread_local\<close> members.
\<close>

record Logger = LogSystem +
  m_composer :: string
  m_category :: string
  m_tempCategory :: string
  m_msgFile :: string
  m_msgLine :: int
  m_msgLevel :: LOGLEVEL

text \<open>
  \<^verbatim>\<open>Logger* m_obj\<close> of the two guard classes is either null or the address of the logger
  passed to the constructor.
\<close>

datatype Logger_ptr = nullptr | addr_of_obj

record AutoEnd =
  AutoEnd_m_obj :: Logger_ptr
  AutoEnd_m_category :: string

record BlockEnd =
  BlockEnd_m_obj :: Logger_ptr

datatype category_manipulator = category_manipulator (m_cat: string)

text \<open>
  What can stop a computation: an exception thrown by the caller's own code (the body of a
  log block), or a member call through a null \<^verbatim>\<open>m_obj\<close>. The latter has no defined
  behaviour in C++; the logger raises no error of its own for it.
\<close>

datatype error = Exception string | NullDereference

subsection \<open>\<^verbatim>\<open>LogSystem\<close>\<close>

text \<open>
  Modelled from the spec: \<^verbatim>\<open>LogSystem::log(file, line, level, category, text)\<close>, whose body
  is in \<^verbatim>\<open>falcon/logsystem.h\<close>. It builds one message and enqueues it for the listeners
  without waiting for delivery.
\<close>

definition log ::
  "string \<Rightarrow> int \<Rightarrow> LOGLEVEL \<Rightarrow> string \<Rightarrow> string \<Rightarrow> 'a LogSystem_scheme \<Rightarrow> 'a LogSystem_scheme" where
  "log file line lvl category text s =
     s\<lparr>messages := messages s @
        [\<lparr>msg_file = file, msg_line = line, msg_level = lvl,
          msg_category = category, msg_text = text\<rparr>]\<rparr>"

subsection \<open>\<^verbatim>\<open>Logger\<close>\<close>

definition setCategory :: "string \<Rightarrow> Logger \<Rightarrow> Logger" where
  "setCategory category s = s\<lparr>m_category := category\<rparr>"

definition setTempCategory :: "string \<Rightarrow> Logger \<Rightarrow> Logger" where
  "setTempCategory category s = s\<lparr>m_tempCategory := category\<rparr>"

definition getCategory :: "Logger \<Rightarrow> string" where
  "getCategory s = m_category s"

definition readyStream :: "Logger \<Rightarrow> Logger" where
  "readyStream s = s\<lparr>m_composer := []\<rparr>"

definition commit :: "Logger \<Rightarrow> Logger" where
  "commit s =
     readyStream
       (if m_tempCategory s = [] then
          log (m_msgFile s) (m_msgLine s) (m_msgLevel s) (m_category s) (m_composer s) s
        else
          (log (m_msgFile s) (m_msgLine s) (m_msgLevel s) (m_tempCategory s) (m_composer s) s)
            \<lparr>m_tempCategory := []\<rparr>)"

definition setLevel :: "LOGLEVEL \<Rightarrow> Logger \<Rightarrow> Logger" where
  "setLevel lvl s = s\<lparr>m_msgLevel := lvl\<rparr>"

definition setFile :: "string \<Rightarrow> Logger \<Rightarrow> Logger" where
  "setFile file s = s\<lparr>m_msgFile := file\<rparr>"

definition setLine :: "int \<Rightarrow> Logger \<Rightarrow> Logger" where
  "setLine line s = s\<lparr>m_msgLine := line\<rparr>"

text \<open>\<^verbatim>\<open>Logger::operator<<(const T& v)\<close>: \<^verbatim>\<open>m_composer << v\<close>.\<close>

definition Logger_shl :: "string \<Rightarrow> Logger \<Rightarrow> Logger" where
  "Logger_shl v s = s\<lparr>m_composer := m_composer s @ v\<rparr>"

definition msg_cat :: "string \<Rightarrow> category_manipulator" where
  "msg_cat category = category_manipulator category"

subsection \<open>\<^verbatim>\<open>Logger::AutoEnd\<close>\<close>

definition AutoEnd_ctor ::
  "LOGLEVEL \<Rightarrow> Logger \<Rightarrow> string \<Rightarrow> int \<Rightarrow> LOGLEVEL \<Rightarrow> AutoEnd \<times> Logger" where
  "AutoEnd_ctor buildMin obj file line lvl =
     (if buildMin \<ge> lvl \<and> level obj \<ge> lvl then
        (\<lparr>AutoEnd_m_obj = addr_of_obj, AutoEnd_m_category = []\<rparr>,
         setLevel lvl (setLine line (setFile file obj)))
      else (\<lparr>AutoEnd_m_obj = nullptr, AutoEnd_m_category = []\<rparr>, obj))"

definition doLog :: "AutoEnd \<Rightarrow> bool" where
  "doLog aes = (AutoEnd_m_obj aes \<noteq> nullptr)"

definition AutoEnd_dtor :: "AutoEnd \<Rightarrow> Logger \<Rightarrow> Logger" where
  "AutoEnd_dtor aes s = (if AutoEnd_m_obj aes \<noteq> nullptr then commit s else s)"

text \<open>The template \<^verbatim>\<open>operator<<(const Logger::AutoEnd& aes, T&& arg)\<close>.\<close>

definition AutoEnd_shl :: "AutoEnd \<Rightarrow> string \<Rightarrow> Logger \<Rightarrow> Logger" where
  "AutoEnd_shl aes arg s = (if doLog aes then Logger_shl arg s else s)"

text \<open>\<^verbatim>\<open>operator<<(const Logger::AutoEnd&& aes, Logger::category_manipulator&& cat)\<close>.\<close>

definition AutoEnd_shl_cat :: "AutoEnd \<Rightarrow> category_manipulator \<Rightarrow> Logger \<Rightarrow> Logger" where
  "AutoEnd_shl_cat aes cat s = (if doLog aes then setTempCategory (m_cat cat) s else s)"

subsection \<open>\<^verbatim>\<open>Logger::BlockEnd\<close>\<close>

definition BlockEnd_ctor ::
  "LOGLEVEL \<Rightarrow> Logger \<Rightarrow> string \<Rightarrow> int \<Rightarrow> LOGLEVEL \<Rightarrow> BlockEnd \<times> Logger" where
  "BlockEnd_ctor buildMin obj file line lvl =
     (if buildMin \<ge> lvl \<and> level obj \<ge> lvl then
        (\<lparr>BlockEnd_m_obj = addr_of_obj\<rparr>,
         setLevel lvl (setLine line (setFile file obj)))
      else (\<lparr>BlockEnd_m_obj = nullptr\<rparr>, obj))"

text \<open>
  \<^verbatim>\<open>void complete() {m_obj->commit(); m_obj = nullptr;}\<close>: the call goes through \<^verbatim>\<open>m_obj\<close>
  without a test.
\<close>

definition complete :: "BlockEnd \<Rightarrow> Logger \<Rightarrow> error + BlockEnd \<times> Logger" where
  "complete ender s =
     (case BlockEnd_m_obj ender of
        nullptr \<Rightarrow> Inl NullDereference
      | addr_of_obj \<Rightarrow> Inr (ender\<lparr>BlockEnd_m_obj := nullptr\<rparr>, commit s))"

definition BlockEnd_bool :: "BlockEnd \<Rightarrow> bool" where
  "BlockEnd_bool ender = (BlockEnd_m_obj ender \<noteq> nullptr)"

subsection \<open>The macros\<close>

definition LOG_CATEGORY :: "LOGLEVEL \<Rightarrow> string \<Rightarrow> Logger \<Rightarrow> Logger" where
  "LOG_CATEGORY buildMin cat s = (if buildMin \<ge> level s then setCategory cat s else s)"

text \<open>
  A log statement \<^verbatim>\<open>LOG(lvl) << a\<^sub>1 << ... << a\<^sub>n;\<close> constructs a temporary \<^verbatim>\<open>AutoEnd\<close>,
  applies the operators from left to right and destroys the temporary at the end of the
  statement. An operand is a value or a \<^verbatim>\<open>category_manipulator\<close>. The overload for the
  manipulator takes the \<^verbatim>\<open>AutoEnd\<close> as an rvalue, which in a plain chain only the first
  operand meets (\<^verbatim>\<open>LOG_INFO << LOG_CAT("c") << ...\<close>); a later manipulator reaches that
  overload only when the caller moves the handle. The model applies the overload wherever
  a manipulator stands.
\<close>

datatype operand = Value string | Manip category_manipulator

fun shl :: "AutoEnd \<Rightarrow> Logger \<Rightarrow> operand \<Rightarrow> Logger" where
  "shl aes s (Value v) = AutoEnd_shl aes v s"
| "shl aes s (Manip cat) = AutoEnd_shl_cat aes cat s"

definition LOG :: "LOGLEVEL \<Rightarrow> string \<Rightarrow> int \<Rightarrow> LOGLEVEL \<Rightarrow> operand list \<Rightarrow> Logger \<Rightarrow> Logger" where
  "LOG buildMin file line lvl args s =
     (case AutoEnd_ctor buildMin s file line lvl of
        (aes, s1) \<Rightarrow> AutoEnd_dtor aes (foldl (shl aes) s1 args))"

text \<open>
  \<^verbatim>\<open>LOG_BLOCK(lvl) body\<close> is a \<^verbatim>\<open>for\<close> loop: the initialiser constructs \<^verbatim>\<open>__ender\<close>, the
  condition is \<^verbatim>\<open>FALCON_MIN_LOG_LEVEL >= lvl && LOGGER.level() >= lvl && __ender\<close>, and the
  increment is \<^verbatim>\<open>__ender.complete()\<close>. The body is the caller's code: it works on the
  logger of the thread and either ends normally or throws, leaving the logger as it was at
  the \<^verbatim>\<open>throw\<close>. The loop counts the bodies it has finished.
\<close>

type_synonym body = "Logger \<Rightarrow> error \<times> Logger + Logger"

function LOG_BLOCK_for ::
  "LOGLEVEL \<Rightarrow> LOGLEVEL \<Rightarrow> body \<Rightarrow> nat \<Rightarrow> BlockEnd \<Rightarrow> Logger
     \<Rightarrow> error \<times> Logger + nat \<times> BlockEnd \<times> Logger" where
  "LOG_BLOCK_for buildMin lvl body n ender s =
     (if buildMin \<ge> lvl \<and> level s \<ge> lvl \<and> BlockEnd_bool ender then
        (case body s of
           Inl thrown \<Rightarrow> Inl thrown
         | Inr s1 \<Rightarrow>
             (case complete ender s1 of
                Inl e \<Rightarrow> Inl (e, s1)
              | Inr (ender', s2) \<Rightarrow> LOG_BLOCK_for buildMin lvl body (Suc n) ender' s2))
      else Inr (n, ender, s))"
  by pat_completeness auto
termination
proof (relation "measure (\<lambda>(buildMin, lvl, body, n, ender, s). if BlockEnd_bool ender then 1 else 0)")
  fix buildMin lvl :: LOGLEVEL and body :: body and n :: nat
    and ender ender' :: BlockEnd and s s1 s2 :: Logger and p
  assume open_now: "lvl \<le> buildMin \<and> lvl \<le> level s \<and> BlockEnd_bool ender"
    and "complete ender s1 = Inr p" and "(ender', s2) = p"
  then have "complete ender s1 = Inr (ender', s2)"
    by simp
  then have "\<not> BlockEnd_bool ender'"
    by (auto simp: complete_def BlockEnd_bool_def split: Logger_ptr.splits)
  with open_now show "((buildMin, lvl, body, Suc n, ender', s2), (buildMin, lvl, body, n, ender, s))
      \<in> measure (\<lambda>(buildMin, lvl, body, n, ender, s). if BlockEnd_bool ender then 1 else 0)"
    by simp
qed simp

declare LOG_BLOCK_for.simps [simp del]

definition LOG_BLOCK ::
  "LOGLEVEL \<Rightarrow> string \<Rightarrow> int \<Rightarrow> LOGLEVEL \<Rightarrow> body \<Rightarrow> Logger
     \<Rightarrow> error \<times> Logger + nat \<times> BlockEnd \<times> Logger" where
  "LOG_BLOCK buildMin file line lvl body s =
     (case BlockEnd_ctor buildMin s file line lvl of
        (ender, s1) \<Rightarrow> LOG_BLOCK_for buildMin lvl body 0 ender s1)"

subsection \<open>Describing statements and their outcome\<close>

text \<open>The text that the values of a statement add to the composer, in the order of the chain.\<close>

fun appended_text :: "operand list \<Rightarrow> string" where
  "appended_text [] = []"
| "appended_text (Value v # args) = v @ appended_text args"
| "appended_text (Manip cat # args) = appended_text args"

text \<open>The categories of the manipulators of a statement, in the order of the chain.\<close>

fun overrides :: "operand list \<Rightarrow> string list" where
  "overrides [] = []"
| "overrides (Value v # args) = overrides args"
| "overrides (Manip cat # args) = m_cat cat # overrides args"

text \<open>Log statements executed one after the other: file, line, level and operands of each.\<close>

type_synonym statement = "string \<times> int \<times> LOGLEVEL \<times> operand list"

fun run_statements :: "LOGLEVEL \<Rightarrow> statement list \<Rightarrow> Logger \<Rightarrow> Logger" where
  "run_statements buildMin [] s = s"
| "run_statements buildMin ((file, line, lvl, args) # rest) s =
     run_statements buildMin rest (LOG buildMin file line lvl args s)"

text \<open>The messages handed to the log system when a log block has ended, either way.\<close>

definition outcome_messages :: "error \<times> Logger + nat \<times> BlockEnd \<times> Logger \<Rightarrow> Message list" where
  "outcome_messages r =
     (case r of Inl (e, s) \<Rightarrow> messages s | Inr (n, ender, s) \<Rightarrow> messages s)"

text \<open>
  A logger to run examples on: run-time threshold 5, persistent category \<open>A\<close>, nothing
  composed, nothing pending and nothing logged yet.
\<close>

definition example_logger :: Logger where
  "example_logger =
     \<lparr>level = 5, messages = [], m_composer = [], m_category = ''A'', m_tempCategory = [],
      m_msgFile = [], m_msgLine = 0, m_msgLevel = 0\<rparr>"

section \<open>Auxiliary facts\<close>

subsection \<open>What a chain of operators does to the logger\<close>

lemma foldl_shl_closed:
  "\<not> doLog aes \<Longrightarrow> foldl (shl aes) s args = s"
proof (induction args arbitrary: s)
  case Nil
  then show ?case by simp
next
  case (Cons a args)
  then show ?case
    by (cases a) (simp_all add: AutoEnd_shl_def AutoEnd_shl_cat_def)
qed

lemma foldl_shl_open:
  "doLog aes \<Longrightarrow>
   foldl (shl aes) s args =
     s\<lparr>m_composer := m_composer s @ appended_text args,
       m_tempCategory := (if overrides args = [] then m_tempCategory s else last (overrides args))\<rparr>"
proof (induction args arbitrary: s)
  case Nil
  then show ?case by simp
next
  case (Cons a args)
  then show ?case
    by (cases a)
      (simp_all add: AutoEnd_shl_def AutoEnd_shl_cat_def Logger_shl_def setTempCategory_def)
qed

lemma appended_text_values: "appended_text (map Value vs) = concat vs"
  by (induction vs) simp_all

lemma commit_messages:
  "messages (commit s) = messages s @
     [\<lparr>msg_file = m_msgFile s, msg_line = m_msgLine s, msg_level = m_msgLevel s,
       msg_category = (if m_tempCategory s = [] then m_category s else m_tempCategory s),
       msg_text = m_composer s\<rparr>]"
  by (simp add: commit_def readyStream_def log_def)

subsection \<open>A whole log statement\<close>

lemma AutoEnd_ctor_open:
  "buildMin \<ge> lvl \<and> level s \<ge> lvl \<Longrightarrow>
   AutoEnd_ctor buildMin s file line lvl =
     (\<lparr>AutoEnd_m_obj = addr_of_obj, AutoEnd_m_category = []\<rparr>,
      s\<lparr>m_msgFile := file, m_msgLine := line, m_msgLevel := lvl\<rparr>)"
  by (simp add: AutoEnd_ctor_def setLevel_def setLine_def setFile_def)

lemma LOG_open:
  "buildMin \<ge> lvl \<and> level s \<ge> lvl \<Longrightarrow>
   LOG buildMin file line lvl args s =
     s\<lparr>messages := messages s @
          [\<lparr>msg_file = file, msg_line = line, msg_level = lvl,
            msg_category =
              (if overrides args = [] then
                 (if m_tempCategory s = [] then m_category s else m_tempCategory s)
               else if last (overrides args) = [] then m_category s
               else last (overrides args)),
            msg_text = m_composer s @ appended_text args\<rparr>],
       m_composer := [], m_tempCategory := [],
       m_msgFile := file, m_msgLine := line, m_msgLevel := lvl\<rparr>"
  by (simp add: LOG_def AutoEnd_ctor_open AutoEnd_dtor_def foldl_shl_open doLog_def commit_def
      readyStream_def log_def)

lemma LOG_closed:
  "\<not> (buildMin \<ge> lvl \<and> level s \<ge> lvl) \<Longrightarrow> LOG buildMin file line lvl args s = s"
  by (auto simp: LOG_def AutoEnd_ctor_def AutoEnd_dtor_def foldl_shl_closed doLog_def)

subsection \<open>A whole log block\<close>

lemma BlockEnd_ctor_open:
  "buildMin \<ge> lvl \<and> level s \<ge> lvl \<Longrightarrow>
   BlockEnd_ctor buildMin s file line lvl =
     (\<lparr>BlockEnd_m_obj = addr_of_obj\<rparr>,
      s\<lparr>m_msgFile := file, m_msgLine := line, m_msgLevel := lvl\<rparr>)"
  by (simp add: BlockEnd_ctor_def setLevel_def setLine_def setFile_def)

lemma LOG_BLOCK_closed:
  "\<not> (buildMin \<ge> lvl \<and> level s \<ge> lvl) \<Longrightarrow>
   LOG_BLOCK buildMin file line lvl body s = Inr (0, \<lparr>BlockEnd_m_obj = nullptr\<rparr>, s)"
  by (auto simp: LOG_BLOCK_def BlockEnd_ctor_def LOG_BLOCK_for.simps)

lemma LOG_BLOCK_throws:
  assumes "buildMin \<ge> lvl \<and> level s \<ge> lvl"
    and "body (s\<lparr>m_msgFile := file, m_msgLine := line, m_msgLevel := lvl\<rparr>) = Inl thrown"
  shows "LOG_BLOCK buildMin file line lvl body s = Inl thrown"
  using assms
  by (simp add: LOG_BLOCK_def BlockEnd_ctor_open LOG_BLOCK_for.simps BlockEnd_bool_def)

lemma LOG_BLOCK_normal:
  assumes "buildMin \<ge> lvl \<and> level s \<ge> lvl"
    and "body (s\<lparr>m_msgFile := file, m_msgLine := line, m_msgLevel := lvl\<rparr>) = Inr s1"
  shows "LOG_BLOCK buildMin file line lvl body s =
           Inr (1, \<lparr>BlockEnd_m_obj = nullptr\<rparr>, commit s1)"
proof -
  have again: "LOG_BLOCK_for buildMin lvl body (Suc 0) \<lparr>BlockEnd_m_obj = nullptr\<rparr> (commit s1)
      = Inr (1, \<lparr>BlockEnd_m_obj = nullptr\<rparr>, commit s1)"
    by (simp add: LOG_BLOCK_for.simps [of _ _ _ "Suc 0"] BlockEnd_bool_def)
  show ?thesis
    using assms
    by (simp add: LOG_BLOCK_def BlockEnd_ctor_open LOG_BLOCK_for.simps [of _ _ _ 0]
        BlockEnd_bool_def complete_def again)
qed

subsection \<open>Several statements\<close>

lemma run_statements_m_category:
  "m_category (run_statements buildMin stmts s) = m_category s"
proof (induction stmts arbitrary: s)
  case Nil
  then show ?case by simp
next
  case (Cons st stmts)
  obtain src ln lvl args where st: "st = (src, ln, lvl, args)"
    by (cases st) auto
  have "m_category (LOG buildMin src ln lvl args s) = m_category s"
    by (cases "buildMin \<ge> lvl \<and> level s \<ge> lvl") (simp_all add: LOG_open LOG_closed)
  with Cons.IH show ?case
    by (simp add: st)
qed

lemma run_statements_categories:
  assumes "m_tempCategory s = []"
    and "\<forall>st \<in> set stmts. overrides (snd (snd (snd st))) = []"
  shows "\<exists>new. messages (run_statements buildMin stmts s) = messages s @ new \<and>
           (\<forall>m \<in> set new. msg_category m = m_category s)"
  using assms
proof (induction stmts arbitrary: s)
  case Nil
  then show ?case by simp
next
  case (Cons st stmts)
  obtain src ln lvl args where st: "st = (src, ln, lvl, args)"
    by (cases st) auto
  let ?s1 = "LOG buildMin src ln lvl args s"
  from Cons.prems st have plain: "overrides args = []"
    by simp
  have step: "m_tempCategory ?s1 = [] \<and> m_category ?s1 = m_category s \<and>
      (\<exists>new. messages ?s1 = messages s @ new \<and> (\<forall>m \<in> set new. msg_category m = m_category s))"
    using Cons.prems(1) plain
    by (cases "buildMin \<ge> lvl \<and> level s \<ge> lvl") (simp_all add: LOG_open LOG_closed)
  then obtain new1 where new1: "messages ?s1 = messages s @ new1"
      "\<forall>m \<in> set new1. msg_category m = m_category s"
    by blast
  from Cons.prems have "\<forall>st \<in> set stmts. overrides (snd (snd (snd st))) = []"
    by simp
  with step Cons.IH [of ?s1] obtain new2 where
    new2: "messages (run_statements buildMin stmts ?s1) = messages ?s1 @ new2"
      "\<forall>m \<in> set new2. msg_category m = m_category s"
    by auto
  from new1 new2 have "messages (run_statements buildMin (st # stmts) s) = messages s @ (new1 @ new2)
      \<and> (\<forall>m \<in> set (new1 @ new2). msg_category m = m_category s)"
    by (auto simp: st)
  then show ?case
    by blast
qed

section \<open>The level gate\<close>

text \<open>
  C1. For every level \<open>lvl\<close>, a newly constructed \<^verbatim>\<open>AutoEnd\<close> is open (\<^verbatim>\<open>doLog()\<close>) exactly
  when the build-time minimum is \<open>\<ge> lvl\<close> and the run-time threshold \<^verbatim>\<open>level()\<close> is
  \<open>\<ge> lvl\<close>; if either comparison fails it is closed.
\<close>

theorem AutoEnd_open_iff_gate:
  "doLog (fst (AutoEnd_ctor buildMin obj file line lvl)) = (buildMin \<ge> lvl \<and> level obj \<ge> lvl)"
  by (simp add: AutoEnd_ctor_def doLog_def)

section \<open>Category overrides within one statement\<close>

text \<open>
  C2 (amended). \<^verbatim>\<open>setTempCategory\<close> assigns without looking at what is pending, so on an
  open statement every category-override append replaces the thread's temporary category.
  When two are applied, the second is what is pending afterwards; and the one message
  that a statement with overrides commits carries the last of them, provided that one is
  not empty. The first override does not stand.
\<close>

theorem last_override_wins:
  assumes "buildMin \<ge> lvl \<and> level s \<ge> lvl"
    and "AutoEnd_ctor buildMin s file line lvl = (aes, s1)"
  shows "m_tempCategory (AutoEnd_shl_cat aes second (AutoEnd_shl_cat aes first t)) = m_cat second \<and>
         (overrides args \<noteq> [] \<and> last (overrides args) \<noteq> [] \<longrightarrow>
           (\<exists>m. messages (LOG buildMin file line lvl args s) = messages s @ [m] \<and>
                msg_category m = last (overrides args)))"
proof -
  from assms have "doLog aes"
    by (auto simp: AutoEnd_ctor_def doLog_def)
  then have "m_tempCategory (AutoEnd_shl_cat aes second (AutoEnd_shl_cat aes first t)) = m_cat second"
    by (simp add: AutoEnd_shl_cat_def setTempCategory_def)
  then show ?thesis
    using assms(1) by (simp add: LOG_open)
qed

text \<open>
  With build minimum 5, threshold 5 and a statement at level 3 that applies the overrides
  \<open>B\<close> and then \<open>C\<close>: the message has category \<open>C\<close>.
\<close>

theorem last_override_wins_witness:
  "(5 \<ge> (3::int) \<and> level example_logger \<ge> 3) \<and>
   map msg_category (messages (LOG 5 ''main.cpp'' 10 3
      [Manip (msg_cat ''B''), Manip (msg_cat ''C''), Value ''x''] example_logger)) = [''C'']"
proof -
  have gate: "5 \<ge> (3::int) \<and> level example_logger \<ge> 3"
    by (simp add: example_logger_def)
  have ctor: "AutoEnd_ctor 5 example_logger ''main.cpp'' 10 3 =
      (\<lparr>AutoEnd_m_obj = addr_of_obj, AutoEnd_m_category = []\<rparr>,
       example_logger\<lparr>m_msgFile := ''main.cpp'', m_msgLine := 10, m_msgLevel := 3\<rparr>)"
    using gate by (rule AutoEnd_ctor_open)
  have ovr: "overrides [Manip (msg_cat ''B''), Manip (msg_cat ''C''), Value ''x''] = [''B'', ''C'']"
    by (simp add: msg_cat_def)
  from last_override_wins [OF gate ctor,
      of "msg_cat ''C''" "msg_cat ''B''" example_logger
         "[Manip (msg_cat ''B''), Manip (msg_cat ''C''), Value ''x'']"]
  obtain m where "messages (LOG 5 ''main.cpp'' 10 3
      [Manip (msg_cat ''B''), Manip (msg_cat ''C''), Value ''x''] example_logger)
        = messages example_logger @ [m]" and "msg_category m = ''C''"
    unfolding ovr by auto
  then show ?thesis
    using gate by (simp add: example_logger_def)
qed

text \<open>
  The claim as first stated, that the first override is the one the commit uses, fails on
  the same statement: the overrides are \<open>B\<close> then \<open>C\<close>, and the category of the message is
  not \<open>B\<close>.
\<close>

theorem first_override_counterexample:
  "map msg_category (messages (LOG 5 ''main.cpp'' 10 3
      [Manip (msg_cat ''B''), Manip (msg_cat ''C''), Value ''x''] example_logger)) = [''C''] \<and>
   map msg_category (messages (LOG 5 ''main.cpp'' 10 3
      [Manip (msg_cat ''B''), Manip (msg_cat ''C''), Value ''x''] example_logger)) \<noteq> [''B'']"
  by (simp add: LOG_open example_logger_def msg_cat_def)

section \<open>Completing a block twice\<close>

text \<open>
  C3. The claim asks that a second \<^verbatim>\<open>complete()\<close> on a \<^verbatim>\<open>BlockEnd\<close> be a no-op or a usage
  error. In the code the first call commits and sets \<^verbatim>\<open>m_obj\<close> to null, and the second
  call is \<^verbatim>\<open>m_obj->commit()\<close> through that null pointer: with build minimum 5, threshold
  5 and a block at level 3, the second call ends in the null dereference.
\<close>

theorem complete_twice_dereferences_null:
  "(case BlockEnd_ctor 5 example_logger ''main.cpp'' 7 3 of
      (ender, s0) \<Rightarrow>
        (case complete ender s0 of
           Inl e \<Rightarrow> Inl e
         | Inr (ender1, s1) \<Rightarrow> complete ender1 s1)) = Inl NullDereference"
  by (simp add: BlockEnd_ctor_def complete_def example_logger_def)

section \<open>One statement, one message\<close>

text \<open>
  A commit empties the composer. So an open statement that starts on an empty composer
  hands nothing to the log system while its operators run, commits exactly one message,
  whose text is the concatenation of the values appended, in the order of the chain, and
  leaves the composer empty for the statement that follows.
\<close>

lemma statement_on_empty_composer:
  assumes "buildMin \<ge> lvl \<and> level s \<ge> lvl"
    and "AutoEnd_ctor buildMin s file line lvl = (aes, s1)"
    and "m_composer s = []"
  shows "messages (foldl (shl aes) s1 args) = messages s \<and>
         (\<exists>m. messages (LOG buildMin file line lvl (map Value vs) s) = messages s @ [m] \<and>
              msg_text m = concat vs) \<and>
         m_composer (LOG buildMin file line lvl (map Value vs) s) = [] \<and>
         m_composer (commit t) = []"
proof -
  from assms have "doLog aes" and "messages s1 = messages s"
    by (auto simp: AutoEnd_ctor_open doLog_def)
  then have "messages (foldl (shl aes) s1 args) = messages s"
    by (simp add: foldl_shl_open)
  moreover have "m_composer (commit t) = []"
    by (simp add: commit_def readyStream_def log_def)
  ultimately show ?thesis
    using assms(1,3) by (simp add: LOG_open appended_text_values)
qed

text \<open>
  C4. The claim is that an open statement commits exactly one message whose text is the
  concatenation of the values appended during the statement. The code breaks it after a
  log block whose body threw: \<^verbatim>\<open>complete()\<close> is not reached, so the reset that \<^verbatim>\<open>commit\<close>
  makes (\<^verbatim>\<open>readyStream\<close>) is missed and what the body wrote stays in the composer. With
  build minimum 5 and threshold 5, a block at level 3 writes \<open>stale\<close> and throws; the
  statement that follows appends \<open>a\<close>, \<open>b\<close> and \<open>c\<close>, and its one message is \<open>staleabc\<close>.
  When the same body ends normally the block commits \<open>stale\<close>, the composer is reset, and
  the message of the statement is \<open>abc\<close>.
\<close>

theorem thrown_block_leaves_stale_text:
  "(case LOG_BLOCK 5 ''main.cpp'' 7 3 (\<lambda>s. Inl (Exception ''boom'', Logger_shl ''stale'' s))
          example_logger of
      Inl (e, s) \<Rightarrow>
        map msg_text (messages (LOG 5 ''main.cpp'' 10 3 (map Value [''a'', ''b'', ''c'']) s))
    | Inr r \<Rightarrow> []) = [''staleabc''] \<and>
   ''staleabc'' \<noteq> concat [''a'', ''b'', ''c''] \<and>
   (case LOG_BLOCK 5 ''main.cpp'' 7 3 (\<lambda>s. Inr (Logger_shl ''stale'' s)) example_logger of
      Inl thrown \<Rightarrow> []
    | Inr (n, ender, s) \<Rightarrow>
        map msg_text (messages (LOG 5 ''main.cpp'' 10 3 (map Value [''a'', ''b'', ''c'']) s)))
     = [''stale'', ''abc'']"
proof -
  have gate: "5 \<ge> (3::int) \<and> level example_logger \<ge> 3"
    by (simp add: example_logger_def)
  have thrown: "LOG_BLOCK 5 ''main.cpp'' 7 3
      (\<lambda>s. Inl (Exception ''boom'', Logger_shl ''stale'' s)) example_logger
      = Inl (Exception ''boom'',
          Logger_shl ''stale''
            (example_logger\<lparr>m_msgFile := ''main.cpp'', m_msgLine := 7, m_msgLevel := 3\<rparr>))"
    using gate by (simp add: LOG_BLOCK_throws)
  have normal: "LOG_BLOCK 5 ''main.cpp'' 7 3 (\<lambda>s. Inr (Logger_shl ''stale'' s)) example_logger
      = Inr (1, \<lparr>BlockEnd_m_obj = nullptr\<rparr>,
          commit (Logger_shl ''stale''
            (example_logger\<lparr>m_msgFile := ''main.cpp'', m_msgLine := 7, m_msgLevel := 3\<rparr>)))"
    using gate by (simp add: LOG_BLOCK_normal)
  show ?thesis
    unfolding thrown normal
    by (simp add: LOG_open commit_def readyStream_def log_def Logger_shl_def example_logger_def)
qed

section \<open>The temporary category lasts one commit\<close>

text \<open>
  C5. Let the persistent category of the thread be \<open>A\<close>. A statement that sets the
  temporary override \<open>B\<close> (the last manipulator of its chain; an override is pending when
  \<^verbatim>\<open>m_tempCategory\<close> is not empty) commits one message with category \<open>B\<close>, and that commit
  clears the override. The statement that follows, with no override, commits one message
  with category \<open>A\<close>. Both statements are open.
\<close>

theorem temporary_category_one_commit:
  assumes gate1: "buildMin \<ge> lvl1 \<and> level s \<ge> lvl1"
    and gate2: "buildMin \<ge> lvl2 \<and> level s \<ge> lvl2"
    and persistent: "m_category s = A"
    and override: "overrides args1 \<noteq> []" "last (overrides args1) = B" "B \<noteq> []"
    and plain: "overrides args2 = []"
    and first: "s1 = LOG buildMin file1 line1 lvl1 args1 s"
    and second: "s2 = LOG buildMin file2 line2 lvl2 args2 s1"
  shows "(\<exists>m1. messages s1 = messages s @ [m1] \<and> msg_category m1 = B) \<and>
         m_tempCategory s1 = [] \<and>
         (\<exists>m2. messages s2 = messages s1 @ [m2] \<and> msg_category m2 = A) \<and>
         map msg_category (drop (length (messages s)) (messages s2)) = [B, A]"
proof -
  have s1: "(\<exists>m1. messages s1 = messages s @ [m1] \<and> msg_category m1 = B) \<and> m_tempCategory s1 = []
      \<and> m_category s1 = A \<and> level s1 = level s"
    using gate1 persistent override by (simp add: first LOG_open)
  then have gate2': "buildMin \<ge> lvl2 \<and> level s1 \<ge> lvl2"
    using gate2 by simp
  have s2: "\<exists>m2. messages s2 = messages s1 @ [m2] \<and> msg_category m2 = A"
    using s1 plain by (simp add: second LOG_open [OF gate2'])
  from s1 s2 show ?thesis
    by auto
qed

text \<open>
  With persistent category \<open>A\<close>: \<^verbatim>\<open>LOG(3) << LOG_CAT("B") << "x"; LOG(3) << "y";\<close> commits
  the categories \<open>B\<close> and then \<open>A\<close>, and no override is pending after the first statement.
\<close>

theorem temporary_category_one_commit_witness:
  "map msg_category (messages
     (LOG 5 ''main.cpp'' 11 3 [Value ''y'']
       (LOG 5 ''main.cpp'' 10 3 [Manip (msg_cat ''B''), Value ''x''] example_logger)))
     = [''B'', ''A''] \<and>
   m_tempCategory (LOG 5 ''main.cpp'' 10 3 [Manip (msg_cat ''B''), Value ''x''] example_logger) = []"
proof -
  have gate: "5 \<ge> (3::int) \<and> level example_logger \<ge> 3"
    by (simp add: example_logger_def)
  have A: "m_category example_logger = ''A''"
    by (simp add: example_logger_def)
  have ovr: "overrides [Manip (msg_cat ''B''), Value ''x''] \<noteq> []"
    "last (overrides [Manip (msg_cat ''B''), Value ''x'']) = ''B''" "''B'' \<noteq> []"
    "overrides [Value ''y''] = []"
    by (simp_all add: msg_cat_def)
  have empty: "messages example_logger = []"
    by (simp add: example_logger_def)
  show ?thesis
    using temporary_category_one_commit [OF gate gate A ovr refl refl,
        of "''main.cpp''" 10 "''main.cpp''" 11]
    by (simp add: empty)
qed

section \<open>Log blocks\<close>

text \<open>
  C6. When the body of an open log block throws before \<^verbatim>\<open>complete()\<close> is reached, the block
  ends with that exception and the logger is exactly as the body left it at the throw:
  the block commits no message.
\<close>

theorem block_abnormal_exit_commits_nothing:
  assumes gate: "buildMin \<ge> lvl \<and> level s \<ge> lvl"
    and ctor: "BlockEnd_ctor buildMin s file line lvl = (ender, s0)"
    and throws: "body s0 = Inl (e, s')"
  shows "LOG_BLOCK buildMin file line lvl body s = Inl (e, s') \<and>
         outcome_messages (LOG_BLOCK buildMin file line lvl body s) = messages s'"
proof -
  from gate ctor have "s0 = s\<lparr>m_msgFile := file, m_msgLine := line, m_msgLevel := lvl\<rparr>"
    by (simp add: BlockEnd_ctor_open)
  with gate throws have "LOG_BLOCK buildMin file line lvl body s = Inl (e, s')"
    by (simp add: LOG_BLOCK_throws)
  then show ?thesis
    by (simp add: outcome_messages_def)
qed

text \<open>
  A block at level 3 whose body writes \<open>partial\<close> to the logger and throws: no message.
\<close>

theorem block_abnormal_exit_commits_nothing_witness:
  "(5 \<ge> (3::int) \<and> level example_logger \<ge> 3) \<and>
   outcome_messages
     (LOG_BLOCK 5 ''main.cpp'' 7 3 (\<lambda>s. Inl (Exception ''boom'', Logger_shl ''partial'' s))
        example_logger) = []"
proof -
  have gate: "5 \<ge> (3::int) \<and> level example_logger \<ge> 3"
    by (simp add: example_logger_def)
  have ctor: "BlockEnd_ctor 5 example_logger ''main.cpp'' 7 3 =
      (\<lparr>BlockEnd_m_obj = addr_of_obj\<rparr>,
       example_logger\<lparr>m_msgFile := ''main.cpp'', m_msgLine := 7, m_msgLevel := 3\<rparr>)"
    using gate by (rule BlockEnd_ctor_open)
  show ?thesis
    using gate block_abnormal_exit_commits_nothing [OF gate ctor,
        of "\<lambda>s. Inl (Exception ''boom'', Logger_shl ''partial'' s)" "Exception ''boom''", OF refl]
    by (simp add: Logger_shl_def example_logger_def outcome_messages_def)
qed

section \<open>Closed statements\<close>

text \<open>
  C7. When the gate is false at construction the statement is closed: the constructor
  leaves the logger as it was, every append on the handle (a value or a category
  manipulator, on any state of the logger) changes nothing, in particular not the
  composer, and the destructor commits nothing. The whole statement leaves the logger
  unchanged.
\<close>

theorem closed_statement_is_noop:
  assumes closed: "\<not> (buildMin \<ge> lvl \<and> level s \<ge> lvl)"
    and ctor: "AutoEnd_ctor buildMin s file line lvl = (aes, s1)"
  shows "\<not> doLog aes \<and> s1 = s \<and> shl aes t arg = t \<and> AutoEnd_dtor aes t = t \<and>
         LOG buildMin file line lvl args s = s"
proof -
  from closed ctor have aes: "AutoEnd_m_obj aes = nullptr" and s1: "s1 = s"
    by (auto simp: AutoEnd_ctor_def)
  have "shl aes t arg = t"
    using aes by (cases arg) (simp_all add: AutoEnd_shl_def AutoEnd_shl_cat_def doLog_def)
  moreover have "AutoEnd_dtor aes t = t"
    using aes by (simp add: AutoEnd_dtor_def)
  moreover have "LOG buildMin file line lvl args s = s"
    using closed by (rule LOG_closed)
  ultimately show ?thesis
    using aes s1 by (simp add: doLog_def)
qed

text \<open>With threshold 2, a statement at level 3 is closed and leaves the logger as it was.\<close>

theorem closed_statement_is_noop_witness:
  "\<not> (5 \<ge> (3::int) \<and> level (example_logger\<lparr>level := 2\<rparr>) \<ge> 3) \<and>
   AutoEnd_ctor 5 (example_logger\<lparr>level := 2\<rparr>) ''main.cpp'' 10 3 =
     (\<lparr>AutoEnd_m_obj = nullptr, AutoEnd_m_category = []\<rparr>, example_logger\<lparr>level := 2\<rparr>) \<and>
   shl \<lparr>AutoEnd_m_obj = nullptr, AutoEnd_m_category = []\<rparr> example_logger (Value ''x'')
     = example_logger \<and>
   AutoEnd_dtor \<lparr>AutoEnd_m_obj = nullptr, AutoEnd_m_category = []\<rparr> example_logger
     = example_logger \<and>
   LOG 5 ''main.cpp'' 10 3 [Value ''x'', Value ''y''] (example_logger\<lparr>level := 2\<rparr>)
     = example_logger\<lparr>level := 2\<rparr>"
proof -
  have closed: "\<not> (5 \<ge> (3::int) \<and> level (example_logger\<lparr>level := 2\<rparr>) \<ge> 3)"
    by (simp add: example_logger_def)
  have ctor: "AutoEnd_ctor 5 (example_logger\<lparr>level := 2\<rparr>) ''main.cpp'' 10 3 =
     (\<lparr>AutoEnd_m_obj = nullptr, AutoEnd_m_category = []\<rparr>, example_logger\<lparr>level := 2\<rparr>)"
    by (simp add: AutoEnd_ctor_def example_logger_def)
  show ?thesis
    using closed ctor
      closed_statement_is_noop [OF closed ctor,
        of example_logger "Value ''x''" "[Value ''x'', Value ''y'']"]
    by simp
qed

section \<open>The body of a log block\<close>

text \<open>
  C8. When the gate is closed, \<^verbatim>\<open>LOG_BLOCK\<close> ends at once with the logger untouched,
  whatever the body is: the body is never executed (the count of executions is 0). When
  the gate is open and the body ends normally, the body has been executed exactly once,
  \<^verbatim>\<open>complete()\<close> has committed exactly one message on the logger as the body left it, and
  the block is no longer open.
\<close>

theorem block_body_runs_once_when_open:
  "(\<not> (buildMin \<ge> lvl \<and> level s \<ge> lvl) \<longrightarrow>
      LOG_BLOCK buildMin file line lvl body s = Inr (0, \<lparr>BlockEnd_m_obj = nullptr\<rparr>, s)) \<and>
   (buildMin \<ge> lvl \<and> level s \<ge> lvl \<longrightarrow>
      body (snd (BlockEnd_ctor buildMin s file line lvl)) = Inr s1 \<longrightarrow>
      LOG_BLOCK buildMin file line lvl body s = Inr (1, \<lparr>BlockEnd_m_obj = nullptr\<rparr>, commit s1) \<and>
      \<not> BlockEnd_bool \<lparr>BlockEnd_m_obj = nullptr\<rparr> \<and>
      (\<exists>m. messages (commit s1) = messages s1 @ [m]))"
  by (simp add: LOG_BLOCK_closed BlockEnd_ctor_open LOG_BLOCK_normal BlockEnd_bool_def
      commit_messages)

text \<open>
  A body that writes \<open>Hello\<close> and \<open>done\<close>: with threshold 2 a block at level 3 does not run
  it; with threshold 5 it runs once and the one message is \<open>Hello done\<close>.
\<close>

theorem block_body_runs_once_when_open_witness:
  "LOG_BLOCK 5 ''main.cpp'' 7 3 (\<lambda>s. Inr (Logger_shl ''done'' (Logger_shl ''Hello '' s)))
     (example_logger\<lparr>level := 2\<rparr>)
     = Inr (0, \<lparr>BlockEnd_m_obj = nullptr\<rparr>, example_logger\<lparr>level := 2\<rparr>) \<and>
   (case LOG_BLOCK 5 ''main.cpp'' 7 3 (\<lambda>s. Inr (Logger_shl ''done'' (Logger_shl ''Hello '' s)))
      example_logger of
      Inl thrown \<Rightarrow> None
    | Inr (n, ender, s) \<Rightarrow> Some (n, BlockEnd_bool ender, map msg_text (messages s))) =
   Some (1, False, [''Hello done''])"
proof -
  let ?body = "\<lambda>s. Inr (Logger_shl ''done'' (Logger_shl ''Hello '' s)) :: error \<times> Logger + Logger"
  have closed: "\<not> (5 \<ge> (3::int) \<and> level (example_logger\<lparr>level := 2\<rparr>) \<ge> 3)"
    and gate: "5 \<ge> (3::int) \<and> level example_logger \<ge> 3"
    by (simp_all add: example_logger_def)
  have 1: "LOG_BLOCK 5 ''main.cpp'' 7 3 ?body (example_logger\<lparr>level := 2\<rparr>)
      = Inr (0, \<lparr>BlockEnd_m_obj = nullptr\<rparr>, example_logger\<lparr>level := 2\<rparr>)"
    using closed
      block_body_runs_once_when_open [of 3 5 "example_logger\<lparr>level := 2\<rparr>" "''main.cpp''" 7 ?body]
    by blast
  have 2: "LOG_BLOCK 5 ''main.cpp'' 7 3 ?body example_logger
      = Inr (1, \<lparr>BlockEnd_m_obj = nullptr\<rparr>,
          commit (Logger_shl ''done'' (Logger_shl ''Hello ''
            (snd (BlockEnd_ctor 5 example_logger ''main.cpp'' 7 3)))))"
    using gate block_body_runs_once_when_open [of 3 5 example_logger "''main.cpp''" 7 ?body]
    by blast
  have ctor: "snd (BlockEnd_ctor 5 example_logger ''main.cpp'' 7 3) =
      example_logger\<lparr>m_msgFile := ''main.cpp'', m_msgLine := 7, m_msgLevel := 3\<rparr>"
    by (simp add: BlockEnd_ctor_open [OF gate])
  show ?thesis
    unfolding 1 2 ctor
    by (simp add: BlockEnd_bool_def commit_messages Logger_shl_def example_logger_def)
qed

section \<open>The persistent category\<close>

text \<open>
  \<^verbatim>\<open>Logger::setCategory\<close> itself replaces the persistent category of the thread, for every
  category text. Through any log statements that follow it stays the persistent category
  until it is set again, and when no override is pending and the statements set none,
  every message they commit carries it.
\<close>

lemma setCategory_persists:
  "m_category (setCategory c s) = c \<and>
   getCategory (run_statements buildMin stmts (setCategory c s)) = c \<and>
   (m_tempCategory s = [] \<and> (\<forall>st \<in> set stmts. overrides (snd (snd (snd st))) = []) \<longrightarrow>
      (\<forall>m \<in> set (drop (length (messages s))
                  (messages (run_statements buildMin stmts (setCategory c s)))).
         msg_category m = c))"
proof -
  have 1: "m_category (setCategory c s) = c"
    by (simp add: setCategory_def)
  have 2: "getCategory (run_statements buildMin stmts (setCategory c s)) = c"
    by (simp add: getCategory_def run_statements_m_category 1)
  have 3: "\<forall>m \<in> set (drop (length (messages s))
                  (messages (run_statements buildMin stmts (setCategory c s)))).
         msg_category m = c"
    if "m_tempCategory s = []" and "\<forall>st \<in> set stmts. overrides (snd (snd (snd st))) = []"
  proof -
    have "m_tempCategory (setCategory c s) = []" and same: "messages (setCategory c s) = messages s"
      using that(1) by (simp_all add: setCategory_def)
    from run_statements_categories [OF this(1) that(2), of buildMin] obtain new where
      "messages (run_statements buildMin stmts (setCategory c s)) = messages s @ new"
      "\<forall>m \<in> set new. msg_category m = c"
      unfolding 1 same by blast
    then show ?thesis
      by simp
  qed
  from 1 2 3 show ?thesis
    by blast
qed

text \<open>
  C9. The claim is that setting the persistent category, also through \<^verbatim>\<open>LOG_CATEGORY\<close>,
  replaces the category of the thread, and that the statements that follow are logged
  under it. The macro breaks it when the build-time minimum is below the run-time
  threshold while statements still pass the gate. With build minimum 3, threshold 5 and
  persistent category \<open>A\<close>: \<^verbatim>\<open>LOG_CATEGORY("Net")\<close> leaves the category \<open>A\<close>, and the
  statement at level 3 that follows is open and commits under \<open>A\<close>. The direct call
  \<^verbatim>\<open>setCategory("Net")\<close> on the same logger makes that statement commit under \<open>Net\<close>.
\<close>

theorem LOG_CATEGORY_skipped_below_threshold:
  "getCategory (LOG_CATEGORY 3 ''Net'' example_logger) = ''A'' \<and>
   doLog (fst (AutoEnd_ctor 3 (LOG_CATEGORY 3 ''Net'' example_logger) ''main.cpp'' 10 3)) \<and>
   map msg_category (messages (LOG 3 ''main.cpp'' 10 3 [Value ''connected'']
      (LOG_CATEGORY 3 ''Net'' example_logger))) = [''A''] \<and>
   map msg_category (messages (LOG 3 ''main.cpp'' 10 3 [Value ''connected'']
      (setCategory ''Net'' example_logger))) = [''Net'']"
  by (simp add: LOG_CATEGORY_def LOG_open AutoEnd_ctor_open doLog_def example_logger_def
      getCategory_def setCategory_def)

section \<open>An empty temporary category\<close>

text \<open>
  C10. After \<^verbatim>\<open>setTempCategory("")\<close> the next commit logs under the persistent category.
  In general the category of a committed message is the temporary one only when that is
  not empty, and the persistent one otherwise, so an empty temporary category is never
  the one a message is logged under. When no override is pending, setting the empty one
  changes nothing: the logger is the same, and a statement that starts with the empty
  override does what the statement without it does.
\<close>

theorem empty_temporary_category_is_none:
  "messages (commit (setTempCategory [] s)) =
     messages s @ [\<lparr>msg_file = m_msgFile s, msg_line = m_msgLine s, msg_level = m_msgLevel s,
                    msg_category = m_category s, msg_text = m_composer s\<rparr>] \<and>
   msg_category (last (messages (commit s))) =
     (if m_tempCategory s = [] then m_category s else m_tempCategory s) \<and>
   (m_tempCategory s = [] \<longrightarrow>
      setTempCategory [] s = s \<and>
      LOG buildMin file line lvl (Manip (msg_cat []) # args) s = LOG buildMin file line lvl args s)"
proof -
  have "LOG buildMin file line lvl (Manip (msg_cat []) # args) s = LOG buildMin file line lvl args s"
    if "m_tempCategory s = []"
  proof (cases "buildMin \<ge> lvl \<and> level s \<ge> lvl")
    case True
    then show ?thesis
      using that by (simp add: LOG_open msg_cat_def)
  next
    case False
    then show ?thesis
      using LOG_closed [of lvl buildMin s] by simp
  qed
  then show ?thesis
    by (simp add: commit_def setTempCategory_def readyStream_def log_def)
qed

text \<open>
  On the example logger (persistent category \<open>A\<close>, nothing pending), a statement that
  starts with the empty override commits under \<open>A\<close>.
\<close>

theorem empty_temporary_category_is_none_witness:
  "m_tempCategory example_logger = [] \<and>
   setTempCategory [] example_logger = example_logger \<and>
   map msg_category
     (messages (LOG 5 ''main.cpp'' 10 3 [Manip (msg_cat []), Value ''x''] example_logger))
     = [''A'']"
proof -
  have none: "m_tempCategory example_logger = []"
    by (simp add: example_logger_def)
  have "map msg_category (messages (LOG 5 ''main.cpp'' 10 3 [Value ''x''] example_logger)) = [''A'']"
    by (simp add: LOG_open example_logger_def)
  then show ?thesis
    using none
      empty_temporary_category_is_none [of example_logger 5 "''main.cpp''" 10 3 "[Value ''x'']"]
    by simp
qed

end
